theory Spec2Isabelle
  imports Main
begin

section \<open>JavaScript values\<close>

text \<open>
  The task pane handles untyped JSON (\<^verbatim>\<open>any\<close>): cell values, formulas and format
  options. The values that can occur are modelled by one datatype. Numbers are kept as
  integers; no property below depends on fractional arithmetic.
\<close>

datatype jsval = JUndefined | JNull | JBool bool | JNum int | JStr string

text \<open>JavaScript truthiness, as used by \<^verbatim>\<open>if (x)\<close> and \<^verbatim>\<open>x || y\<close>.\<close>

fun truthy :: "jsval \<Rightarrow> bool" where
  "truthy JUndefined = False"
| "truthy JNull = False"
| "truthy (JBool b) = b"
| "truthy (JNum n) = (n \<noteq> 0)"
| "truthy (JStr s) = (s \<noteq> [])"

text \<open>\<^verbatim>\<open>x || y\<close> on values.\<close>

definition js_or :: "jsval \<Rightarrow> jsval \<Rightarrow> jsval" where
  "js_or x y = (if truthy x then x else y)"

section \<open>Column letters (ModelChat.tsx, \<^verbatim>\<open>colToNum\<close>)\<close>

text \<open>
  \<^verbatim>\<open>
  const colToNum = (col: string): number => {
    let num = 0;
    for (let i = 0; i < col.length; i++) {
      num = num * 26 + (col.charCodeAt(i) - 64);
    }
    return num;
  };
  \<close>
  The loop runs over the characters from left to right with the accumulator \<open>num\<close>.
  JavaScript numbers are doubles, which are exact on integers below \<open>2^53\<close>; the model
  computes on unbounded integers and agrees with the code up to there.
\<close>

fun colToNum_loop :: "string \<Rightarrow> int \<Rightarrow> int" where
  "colToNum_loop [] num = num"
| "colToNum_loop (c # cs) num = colToNum_loop cs (num * 26 + (of_char c - 64))"

definition colToNum :: "string \<Rightarrow> int" where
  "colToNum col = colToNum_loop col 0"

text \<open>
  The repository has no encoder. The standard column-letter encoding the specification
  refers to (base 26, 1-indexed, no zero digit: 1 is A, 26 is Z, 27 is AA) is written
  here from the specification's words, to be compared with \<open>colToNum\<close>.
\<close>

function spec_numToCol :: "nat \<Rightarrow> string" where
  "spec_numToCol n =
     (if n = 0 then []
      else spec_numToCol ((n - 1) div 26) @ [char_of (65 + (n - 1) mod 26)])"
  by pat_completeness auto
termination
  by (relation "measure id") auto

declare spec_numToCol.simps [simp del]

lemma colToNum_loop_snoc:
  "colToNum_loop (cs @ [c]) num = colToNum_loop cs num * 26 + (of_char c - 64)"
  by (induction cs arbitrary: num) simp_all

lemma of_char_letter:
  assumes k: "k < 26"
  shows "(of_char (char_of (65 + k :: nat)) :: int) = 65 + int k"
proof -
  have "(of_char (char_of (65 + k)) :: nat) = (65 + k) mod 256"
    by (rule of_char_of)
  also have "\<dots> = 65 + k"
    using k by simp
  finally have "int (of_char (char_of (65 + k))) = int (65 + k)"
    by (rule arg_cong)
  then show ?thesis
    by (simp only: of_nat_of_char of_nat_add of_nat_numeral)
qed

lemma colToNum_loop_spec_numToCol: "colToNum_loop (spec_numToCol n) 0 = int n"
proof (induction n rule: spec_numToCol.induct)
  case (1 n)
  show ?case
  proof (cases "n = 0")
    case True
    then show ?thesis
      by (simp add: spec_numToCol.simps)
  next
    case False
    have k: "(n - 1) mod 26 < 26"
      by simp
    have "int ((n - 1) div 26 * 26 + (n - 1) mod 26) = int (n - 1)"
      by (simp only: div_mult_mod_eq)
    then have dm: "int ((n - 1) div 26) * 26 + int ((n - 1) mod 26) = int (n - 1)"
      by (simp only: of_nat_add of_nat_mult of_nat_numeral)
    have ih: "colToNum_loop (spec_numToCol ((n - 1) div 26)) 0 = int ((n - 1) div 26)"
      using "1" False by simp
    have unfold: "spec_numToCol n =
        spec_numToCol ((n - 1) div 26) @ [char_of (65 + (n - 1) mod 26)]"
      using False by (subst spec_numToCol.simps) simp
    have "colToNum_loop (spec_numToCol n) 0 =
        int ((n - 1) div 26) * 26 + (65 + int ((n - 1) mod 26) - 64)"
      by (simp only: unfold colToNum_loop_snoc of_char_letter [OF k] ih)
    also have "\<dots> = (int ((n - 1) div 26) * 26 + int ((n - 1) mod 26)) + 1"
      by arith
    also have "\<dots> = int (n - 1) + 1"
      by (simp only: dm)
    also have "\<dots> = int n"
      using False by arith
    finally show ?thesis .
  qed
qed

text \<open>
  C6. Column-letter decoding is total (a HOL function on every string) and implements the
  1-indexed base-26 positional encoding: A is 1, Z is 26, AA is 27, and decoding the
  standard encoding of any number n gives n back (in particular for n from 1 to 10000).
\<close>

theorem colToNum_decodes_base26:
  "colToNum ''A'' = 1 \<and> colToNum ''Z'' = 26 \<and> colToNum ''AA'' = 27 \<and>
   colToNum (spec_numToCol n) = int n"
  by (simp add: colToNum_def colToNum_loop_spec_numToCol)

theorem colToNum_decodes_base26_witness:
  "colToNum (spec_numToCol 10000) = 10000 \<and> spec_numToCol 10000 = ''NTP'' \<and>
   colToNum ''NTP'' = 10000"
proof -
  have enc: "spec_numToCol 10000 = ''NTP''"
    by (simp add: spec_numToCol.simps char_of_def bit_0)
  have "colToNum (spec_numToCol 10000) = int 10000"
    using colToNum_decodes_base26 [of 10000] by blast
  then show ?thesis
    by (simp add: enc)
qed

section \<open>Mutation actions and queued operations\<close>

text \<open>
  The actions arrive as JSON objects with a \<^verbatim>\<open>type\<close> discriminator. Each constructor
  carries the fields its branch of \<^verbatim>\<open>executeActions\<close> reads: the sheet name, the cell or
  range address, and the payload. An object whose \<^verbatim>\<open>type\<close> matches no branch is
  \<open>OtherAction\<close>. Format options that are absent are \<open>JUndefined\<close>.
\<close>

record format_options =
  fmt_bold :: jsval
  fmt_numberFormat :: jsval
  fmt_bgColor :: jsval
  fmt_fontColor :: jsval

datatype action =
    SetCellValue string string jsval
  | SetFormula string string jsval
  | SetRangeValues string string "jsval list list"
  | SetRangeFormulas string string "jsval list list"
  | ClearRange string string
  | FormatCell string string format_options
  | OtherAction string string

text \<open>
  Office.js proxies do not touch the document: an assignment to a range property or a
  method call is queued on the request context and takes effect at
  \<^verbatim>\<open>context.sync()\<close>. A queued operation names the sheet
  (\<^verbatim>\<open>worksheets.getItem(sheet)\<close>) and the address (\<^verbatim>\<open>sheet.getRange(address)\<close>) of
  the proxy it was issued on.
\<close>

datatype op =
    WriteValues string string "jsval list list"
  | WriteFormulas string string "jsval list list"
  | ClearOp string string string
  | WriteFontBold string string jsval
  | WriteNumberFormat string string jsval
  | WriteFillColor string string jsval
  | WriteFontColor string string jsval
  | Activate string
  | Select string string

datatype js_error =
    TypeError
  | DimensionMismatch string int int int int

section \<open>Parsing a range address (ModelChat.tsx, branch \<^verbatim>\<open>setRangeValues\<close>)\<close>

text \<open>\<^verbatim>\<open>s.split(d)\<close> for a one-character separator: the pieces between the separators.\<close>

fun js_split :: "char \<Rightarrow> string \<Rightarrow> string list" where
  "js_split d [] = [[]]"
| "js_split d (c # cs) =
     (if c = d then [] # js_split d cs
      else (case js_split d cs of
              [] \<Rightarrow> [[c]]
            | p # ps \<Rightarrow> (c # p) # ps))"

text \<open>The character classes \<^verbatim>\<open>[A-Z]\<close> and \<^verbatim>\<open>\d\<close>.\<close>

definition isUpper :: "char \<Rightarrow> bool" where
  "isUpper c = (65 \<le> (of_char c :: nat) \<and> (of_char c :: nat) \<le> 90)"

definition isDigit :: "char \<Rightarrow> bool" where
  "isDigit c = (48 \<le> (of_char c :: nat) \<and> (of_char c :: nat) \<le> 57)"

text \<open>
  \<^verbatim>\<open>s.match(/[A-Z]+/)\<close> and \<^verbatim>\<open>s.match(/\d+/)\<close>: the leftmost longest run of characters
  of the class, or \<^verbatim>\<open>null\<close> (here \<open>None\<close>) when the string has none.
\<close>

definition match_run :: "(char \<Rightarrow> bool) \<Rightarrow> string \<Rightarrow> string option" where
  "match_run p s =
     (case dropWhile (\<lambda>c. \<not> p c) s of
        [] \<Rightarrow> None
      | c # cs \<Rightarrow> Some (takeWhile p (c # cs)))"

text \<open>\<^verbatim>\<open>parseInt\<close> on a string of decimal digits, which is all it is given here.\<close>

fun parseInt_loop :: "string \<Rightarrow> int \<Rightarrow> int" where
  "parseInt_loop [] n = n"
| "parseInt_loop (c # cs) n = parseInt_loop cs (n * 10 + (of_char c - 48))"

definition parseInt :: "string \<Rightarrow> int" where
  "parseInt s = parseInt_loop s 0"

text \<open>
  The dimension check of the \<^verbatim>\<open>setRangeValues\<close> branch. It returns the error that is
  thrown, or \<open>None\<close> when the branch goes on to the write. \<^verbatim>\<open>match(...)[0]\<close> on a
  \<^verbatim>\<open>null\<close> match is a TypeError. \<^verbatim>\<open>action.values[0]?.length || 0\<close> is 0 for an empty
  payload.
\<close>

definition checkDimensions :: "string \<Rightarrow> jsval list list \<Rightarrow> js_error option" where
  "checkDimensions rng vals =
     (case js_split (CHR '':'') rng of
        [startCell, endCell] \<Rightarrow>
          (case match_run isUpper startCell of
             None \<Rightarrow> Some TypeError
           | Some startCol \<Rightarrow>
          (case match_run isDigit startCell of
             None \<Rightarrow> Some TypeError
           | Some startDigits \<Rightarrow>
          (case match_run isUpper endCell of
             None \<Rightarrow> Some TypeError
           | Some endCol \<Rightarrow>
          (case match_run isDigit endCell of
             None \<Rightarrow> Some TypeError
           | Some endDigits \<Rightarrow>
               (let startRow = parseInt startDigits;
                    endRow = parseInt endDigits;
                    expectedRows = endRow - startRow + 1;
                    expectedCols = colToNum endCol - colToNum startCol + 1;
                    actualRows = int (length vals);
                    actualCols = (case vals of [] \<Rightarrow> 0 | r # _ \<Rightarrow> int (length r))
                in if expectedRows \<noteq> actualRows \<or> expectedCols \<noteq> actualCols
                   then Some (DimensionMismatch rng expectedRows expectedCols
                                actualRows actualCols)
                   else None)))))
      | _ \<Rightarrow> None)"

section \<open>The executor (ModelChat.tsx, \<^verbatim>\<open>executeActions\<close>)\<close>

text \<open>
  One iteration of the loop body: the operations the action queues, or the error it
  throws. Only the \<^verbatim>\<open>setRangeValues\<close> branch has a \<^verbatim>\<open>throw\<close>; it precedes the
  branch's write.
\<close>

fun applyAction :: "action \<Rightarrow> js_error + op list" where
  "applyAction (SetCellValue sheet cell v) = Inr [WriteValues sheet cell [[v]]]"
| "applyAction (SetFormula sheet cell f) = Inr [WriteFormulas sheet cell [[f]]]"
| "applyAction (SetRangeValues sheet rng vals) =
     (case checkDimensions rng vals of
        Some err \<Rightarrow> Inl err
      | None \<Rightarrow> Inr [WriteValues sheet rng vals])"
| "applyAction (SetRangeFormulas sheet rng fs) = Inr [WriteFormulas sheet rng fs]"
| "applyAction (ClearRange sheet rng) = Inr [ClearOp sheet rng ''Contents'']"
| "applyAction (FormatCell sheet cell fmt) =
     Inr ((if truthy (fmt_bold fmt) then [WriteFontBold sheet cell (JBool True)] else []) @
          (if truthy (fmt_numberFormat fmt)
           then [WriteNumberFormat sheet cell (fmt_numberFormat fmt)] else []) @
          (if truthy (fmt_bgColor fmt)
           then [WriteFillColor sheet cell (fmt_bgColor fmt)] else []) @
          (if truthy (fmt_fontColor fmt)
           then [WriteFontColor sheet cell (fmt_fontColor fmt)] else []))"
| "applyAction (OtherAction ty sheet) = Inr []"

text \<open>
  The \<^verbatim>\<open>for\<close> loop with its \<^verbatim>\<open>try/catch\<close>: the catch logs the action and the error and
  rethrows, which leaves the loop. The failure carries what was logged and the queue the
  context held at that moment.
\<close>

fun runActions :: "action list \<Rightarrow> op list \<Rightarrow> (action \<times> js_error \<times> op list) + op list" where
  "runActions [] queue = Inr queue"
| "runActions (a # rest) queue =
     (case applyAction a of
        Inl err \<Rightarrow> Inl (a, err, queue)
      | Inr ops \<Rightarrow> runActions rest (queue @ ops))"

text \<open>
  The Grid Accessor's synchronization barrier is an external collaborator: it commits a
  queue of operations to the document and may report a host error. It is a parameter of
  the executor, over any type of document.
\<close>

datatype host_error = ItemNotFound string | InvalidArgument string

type_synonym 'doc barrier = "op list \<Rightarrow> 'doc \<Rightarrow> host_error option \<times> 'doc"

datatype exec_error = ActionError action js_error | SyncError host_error

record 'doc exec_result =
  res_document :: 'doc
  res_synced :: bool
  res_thrown :: "exec_error option"

text \<open>
  \<^verbatim>\<open>Excel.run\<close> around the loop: an exception from the loop leaves the callback before
  \<^verbatim>\<open>await context.sync()\<close>, so the queue is dropped and the document is as it was.
\<close>

definition executeActions :: "'doc barrier \<Rightarrow> action list \<Rightarrow> 'doc \<Rightarrow> 'doc exec_result" where
  "executeActions sync actions doc =
     (case runActions actions [] of
        Inl (a, err, queue) \<Rightarrow>
          \<lparr>res_document = doc, res_synced = False, res_thrown = Some (ActionError a err)\<rparr>
      | Inr queue \<Rightarrow>
          (case sync queue doc of
             (None, doc') \<Rightarrow>
               \<lparr>res_document = doc', res_synced = True, res_thrown = None\<rparr>
           | (Some e, doc') \<Rightarrow>
               \<lparr>res_document = doc', res_synced = True, res_thrown = Some (SyncError e)\<rparr>))"

text \<open>
  The end of \<^verbatim>\<open>sendMessage\<close>: what is done with the actions of a chat response.
  \<^verbatim>\<open>parsedData.actions\<close> may be absent (\<open>None\<close>). The result is the document afterwards and
  the executor's result when the executor was called.
\<close>

definition sendMessage_actions ::
  "'doc barrier \<Rightarrow> bool \<Rightarrow> action list option \<Rightarrow> 'doc \<Rightarrow> 'doc \<times> 'doc exec_result option" where
  "sendMessage_actions sync agentMode actions doc =
     (case actions of
        None \<Rightarrow> (doc, None)
      | Some acts \<Rightarrow>
          if length acts > 0 then
            (if agentMode
             then (let r = executeActions sync acts doc in (res_document r, Some r))
             else (doc, None))
          else (doc, None))"

section \<open>Properties of the executor\<close>

text \<open>What an action queues when it does not throw, and whether it throws.\<close>

definition queued_ops :: "action \<Rightarrow> op list" where
  "queued_ops a = (case applyAction a of Inl err \<Rightarrow> [] | Inr ops \<Rightarrow> ops)"

definition throws :: "action \<Rightarrow> bool" where
  "throws a = isl (applyAction a)"

lemma applyAction_ok: "\<not> throws a \<Longrightarrow> applyAction a = Inr (queued_ops a)"
  by (cases "applyAction a") (simp_all add: throws_def queued_ops_def)

lemma runActions_append:
  "runActions (xs @ ys) queue =
     (case runActions xs queue of Inl f \<Rightarrow> Inl f | Inr queue' \<Rightarrow> runActions ys queue')"
  by (induction xs arbitrary: queue) (simp_all split: sum.splits)

lemma runActions_all_ok:
  "list_all (\<lambda>a. \<not> throws a) xs \<Longrightarrow>
   runActions xs queue = Inr (queue @ concat (map queued_ops xs))"
  by (induction xs arbitrary: queue) (simp_all add: applyAction_ok)

lemma runActions_stops:
  assumes "list_all (\<lambda>a. \<not> throws a) xs" and "applyAction a = Inl err"
  shows "runActions (xs @ a # ys) queue = Inl (a, err, queue @ concat (map queued_ops xs))"
  using assms by (simp add: runActions_append runActions_all_ok)

lemma runActions_throws:
  "\<not> list_all (\<lambda>a. \<not> throws a) xs \<Longrightarrow> isl (runActions xs queue)"
  by (induction xs arbitrary: queue) (auto simp: throws_def split: sum.splits)

lemma js_split_no_separator: "d \<notin> set s \<Longrightarrow> js_split d s = [s]"
  by (induction s) auto

lemma js_split_one_separator:
  "d \<notin> set s \<Longrightarrow> d \<notin> set t \<Longrightarrow> js_split d (s @ d # t) = [s, t]"
  by (induction s) (auto simp: js_split_no_separator)

text \<open>
  C2. The executor applies the actions in the order supplied and is fail-fast: when all
  actions apply, the queue holds their operations in order; when the action at index k is
  the first to throw, the queue holds the operations of the actions before it, the failure
  that is logged and rethrown is that of action k, the barrier is not reached, and the
  actions after index k play no part in the result (they are never attempted).
\<close>

theorem executeActions_in_order_fail_fast:
  "(list_all (\<lambda>a. \<not> throws a) actions \<longrightarrow>
      runActions actions [] = Inr (concat (map queued_ops actions))) \<and>
   (k < length actions \<and> list_all (\<lambda>a. \<not> throws a) (take k actions) \<and>
    applyAction (actions ! k) = Inl err \<longrightarrow>
      runActions actions [] =
        Inl (actions ! k, err, concat (map queued_ops (take k actions))) \<and>
      executeActions sync actions doc =
        \<lparr>res_document = doc, res_synced = False,
         res_thrown = Some (ActionError (actions ! k) err)\<rparr> \<and>
      executeActions sync (take (Suc k) actions @ others) doc =
        executeActions sync actions doc)"
proof (intro conjI impI)
  assume "list_all (\<lambda>a. \<not> throws a) actions"
  then show "runActions actions [] = Inr (concat (map queued_ops actions))"
    by (simp add: runActions_all_ok)
next
  assume h: "k < length actions \<and> list_all (\<lambda>a. \<not> throws a) (take k actions) \<and>
    applyAction (actions ! k) = Inl err"
  then have split: "actions = take k actions @ actions ! k # drop (Suc k) actions"
    by (simp add: id_take_nth_drop)
  have stop: "runActions (take k actions @ actions ! k # ys) [] =
      Inl (actions ! k, err, concat (map queued_ops (take k actions)))" for ys
    using h runActions_stops [of "take k actions" "actions ! k" err ys "[]"] by simp
  show run: "runActions actions [] =
      Inl (actions ! k, err, concat (map queued_ops (take k actions)))"
    using stop [of "drop (Suc k) actions"] split by simp
  then show exec: "executeActions sync actions doc =
      \<lparr>res_document = doc, res_synced = False,
       res_thrown = Some (ActionError (actions ! k) err)\<rparr>"
    by (simp add: executeActions_def)
  have "take (Suc k) actions @ others = take k actions @ actions ! k # others"
    using h by (simp add: take_Suc_conv_app_nth)
  then have "runActions (take (Suc k) actions @ others) [] =
      Inl (actions ! k, err, concat (map queued_ops (take k actions)))"
    using stop [of others] by simp
  then show "executeActions sync (take (Suc k) actions @ others) doc =
      executeActions sync actions doc"
    using run by (simp add: executeActions_def)
qed

lemma checkDimensions_example:
  "checkDimensions ''A1:C2'' [[JNum 1, JNum 2], [JNum 3, JNum 4]] =
     Some (DimensionMismatch ''A1:C2'' 2 3 2 2)"
  by (simp add: checkDimensions_def match_run_def isUpper_def isDigit_def parseInt_def
      colToNum_def)

theorem executeActions_in_order_fail_fast_witness:
  "runActions
     [SetCellValue ''S'' ''A1'' (JNum 1),
      SetRangeValues ''S'' ''A1:C2'' [[JNum 1, JNum 2], [JNum 3, JNum 4]],
      SetCellValue ''S'' ''B1'' (JNum 2)] [] =
     Inl (SetRangeValues ''S'' ''A1:C2'' [[JNum 1, JNum 2], [JNum 3, JNum 4]],
          DimensionMismatch ''A1:C2'' 2 3 2 2,
          [WriteValues ''S'' ''A1'' [[JNum 1]]]) \<and>
   executeActions (\<lambda>queue d. (None, queue @ d))
     [SetCellValue ''S'' ''A1'' (JNum 1),
      SetRangeValues ''S'' ''A1:C2'' [[JNum 1, JNum 2], [JNum 3, JNum 4]],
      SetCellValue ''S'' ''B1'' (JNum 2)] [] =
     \<lparr>res_document = [], res_synced = False,
      res_thrown = Some (ActionError
        (SetRangeValues ''S'' ''A1:C2'' [[JNum 1, JNum 2], [JNum 3, JNum 4]])
        (DimensionMismatch ''A1:C2'' 2 3 2 2))\<rparr>"
  using executeActions_in_order_fail_fast
    [of "[SetCellValue ''S'' ''A1'' (JNum 1),
          SetRangeValues ''S'' ''A1:C2'' [[JNum 1, JNum 2], [JNum 3, JNum 4]],
          SetCellValue ''S'' ''B1'' (JNum 2)]"
        1 "DimensionMismatch ''A1:C2'' 2 3 2 2" "\<lambda>queue d. (None, queue @ d)" "[]" "[]"]
  by (simp add: checkDimensions_example throws_def queued_ops_def)

text \<open>
  C8. The barrier commit runs exactly when every action of the batch was applied without
  throwing. Then it runs on the whole queue and the original document, and the result is
  what the barrier returns. When some action throws, the barrier plays no part: the
  result is the same for every barrier, and the document is unchanged.
\<close>

theorem executeActions_sync_iff_all_applied:
  "res_synced (executeActions sync actions doc) = list_all (\<lambda>a. \<not> throws a) actions \<and>
   (list_all (\<lambda>a. \<not> throws a) actions \<longrightarrow>
      res_document (executeActions sync actions doc) =
        snd (sync (concat (map queued_ops actions)) doc) \<and>
      res_thrown (executeActions sync actions doc) =
        map_option SyncError (fst (sync (concat (map queued_ops actions)) doc))) \<and>
   (\<not> list_all (\<lambda>a. \<not> throws a) actions \<longrightarrow>
      res_document (executeActions sync actions doc) = doc \<and>
      executeActions sync' actions doc = executeActions sync actions doc)"
proof (cases "list_all (\<lambda>a. \<not> throws a) actions")
  case True
  then have run: "runActions actions [] = Inr (concat (map queued_ops actions))"
    by (simp add: runActions_all_ok)
  obtain e d where s: "sync (concat (map queued_ops actions)) doc = (e, d)"
    by (cases "sync (concat (map queued_ops actions)) doc")
  show ?thesis
    using True by (cases e) (simp_all add: executeActions_def run s)
next
  case False
  then have "isl (runActions actions [])"
    by (rule runActions_throws)
  then obtain f where "runActions actions [] = Inl f"
    by (cases "runActions actions []") simp_all
  with False show ?thesis
    by (simp add: executeActions_def split: prod.splits)
qed

theorem executeActions_sync_iff_all_applied_witness:
  "executeActions (\<lambda>queue d. (None, queue @ d))
       [SetCellValue ''S'' ''A1'' (JNum 1),
        SetRangeValues ''S'' ''A1:C2'' [[JNum 1, JNum 2], [JNum 3, JNum 4]]] [] =
     \<lparr>res_document = [], res_synced = False,
      res_thrown = Some (ActionError
        (SetRangeValues ''S'' ''A1:C2'' [[JNum 1, JNum 2], [JNum 3, JNum 4]])
        (DimensionMismatch ''A1:C2'' 2 3 2 2))\<rparr> \<and>
   res_synced (executeActions (\<lambda>queue d. (None, queue @ d))
       [SetCellValue ''S'' ''A1'' (JNum 1), ClearRange ''S'' ''B2''] []) \<and>
   res_document (executeActions (\<lambda>queue d. (None, queue @ d))
       [SetCellValue ''S'' ''A1'' (JNum 1), ClearRange ''S'' ''B2''] []) =
     [WriteValues ''S'' ''A1'' [[JNum 1]], ClearOp ''S'' ''B2'' ''Contents''] \<and>
   res_thrown (executeActions (\<lambda>queue d. (None, queue @ d))
       [SetCellValue ''S'' ''A1'' (JNum 1), ClearRange ''S'' ''B2''] []) = None"
proof -
  have ok: "res_synced (executeActions (\<lambda>queue d. (None, queue @ d))
       [SetCellValue ''S'' ''A1'' (JNum 1), ClearRange ''S'' ''B2''] []) \<and>
     res_document (executeActions (\<lambda>queue d. (None, queue @ d))
       [SetCellValue ''S'' ''A1'' (JNum 1), ClearRange ''S'' ''B2''] []) =
       [WriteValues ''S'' ''A1'' [[JNum 1]], ClearOp ''S'' ''B2'' ''Contents''] \<and>
     res_thrown (executeActions (\<lambda>queue d. (None, queue @ d))
       [SetCellValue ''S'' ''A1'' (JNum 1), ClearRange ''S'' ''B2''] []) = None"
    using executeActions_sync_iff_all_applied
      [of "\<lambda>queue d. (None, queue @ d)"
          "[SetCellValue ''S'' ''A1'' (JNum 1), ClearRange ''S'' ''B2'']" "[]"]
    by (simp add: throws_def queued_ops_def)
  have failed: "executeActions (\<lambda>queue d. (None, queue @ d))
       [SetCellValue ''S'' ''A1'' (JNum 1),
        SetRangeValues ''S'' ''A1:C2'' [[JNum 1, JNum 2], [JNum 3, JNum 4]]] [] =
     \<lparr>res_document = [], res_synced = False,
      res_thrown = Some (ActionError
        (SetRangeValues ''S'' ''A1:C2'' [[JNum 1, JNum 2], [JNum 3, JNum 4]])
        (DimensionMismatch ''A1:C2'' 2 3 2 2))\<rparr>"
    by (simp add: executeActions_def checkDimensions_example)
  show ?thesis
    using ok failed by simp
qed

text \<open>
  C4. The executor is called only in agent mode: for a response with a non-empty action
  list the actions are executed when agent mode is on; when agent mode is off the executor
  is not called and the document is untouched, whatever the response carries.
\<close>

theorem sendMessage_actions_agent_mode_gate:
  "(acts \<noteq> [] \<longrightarrow>
      sendMessage_actions sync True (Some acts) doc =
        (res_document (executeActions sync acts doc), Some (executeActions sync acts doc))) \<and>
   sendMessage_actions sync False actions doc = (doc, None)"
  by (simp add: sendMessage_actions_def Let_def split: option.splits)

theorem sendMessage_actions_agent_mode_gate_witness:
  "sendMessage_actions (\<lambda>queue d. (None, queue @ d)) True
     (Some [SetCellValue ''S'' ''A1'' (JNum 1)]) [] =
     ([WriteValues ''S'' ''A1'' [[JNum 1]]],
      Some \<lparr>res_document = [WriteValues ''S'' ''A1'' [[JNum 1]]], res_synced = True,
            res_thrown = None\<rparr>) \<and>
   sendMessage_actions (\<lambda>queue d. (None, queue @ d)) False
     (Some [SetCellValue ''S'' ''A1'' (JNum 1)]) [] = ([], None)"
  using sendMessage_actions_agent_mode_gate
    [of "[SetCellValue ''S'' ''A1'' (JNum 1)]" "\<lambda>queue d. (None, queue @ d)" "[]"
        "Some [SetCellValue ''S'' ''A1'' (JNum 1)]"]
  by (simp add: executeActions_def)

text \<open>
  C9. A \<^verbatim>\<open>setRangeValues\<close> action whose address has no colon skips the dimension check:
  the payload is queued for writing as it is, whatever its shape.
\<close>

theorem setRangeValues_no_colon_unchecked:
  "CHR '':'' \<notin> set rng \<Longrightarrow>
   checkDimensions rng vals = None \<and>
   applyAction (SetRangeValues sheet rng vals) = Inr [WriteValues sheet rng vals]"
  by (simp add: checkDimensions_def js_split_no_separator)

theorem setRangeValues_no_colon_unchecked_witness:
  "CHR '':'' \<notin> set ''A1'' \<and>
   applyAction (SetRangeValues ''S'' ''A1'' [[JNum 1, JNum 2], [JNum 3]]) =
     Inr [WriteValues ''S'' ''A1'' [[JNum 1, JNum 2], [JNum 3]]]"
proof -
  have h: "CHR '':'' \<notin> set ''A1''"
    by simp
  show ?thesis
    using h setRangeValues_no_colon_unchecked [OF h, of "[[JNum 1, JNum 2], [JNum 3]]" "''S''"]
    by simp
qed

section \<open>The dimension check on well-formed range addresses\<close>

text \<open>
  A plain cell reference is a non-empty run of capital letters followed by a non-empty run
  of digits. On the address \<open>letters1 digits1 : letters2 digits2\<close> the check of the
  \<^verbatim>\<open>setRangeValues\<close> branch compares the payload with the rows and columns the address
  spans.
\<close>

definition a1_cell :: "string \<Rightarrow> string \<Rightarrow> bool" where
  "a1_cell letters digits =
     (letters \<noteq> [] \<and> list_all isUpper letters \<and> digits \<noteq> [] \<and> list_all isDigit digits)"

definition first_row_length :: "jsval list list \<Rightarrow> int" where
  "first_row_length vals = (case vals of [] \<Rightarrow> 0 | r # _ \<Rightarrow> int (length r))"

lemma isUpper_not_isDigit: "isUpper c \<Longrightarrow> \<not> isDigit c"
  by (simp add: isUpper_def isDigit_def)

lemma isUpper_not_colon: "isUpper c \<Longrightarrow> c \<noteq> CHR '':''"
  by (auto simp: isUpper_def)

lemma isDigit_not_colon: "isDigit c \<Longrightarrow> c \<noteq> CHR '':''"
  by (auto simp: isDigit_def)

lemma a1_cell_no_colon: "a1_cell ls ds \<Longrightarrow> CHR '':'' \<notin> set (ls @ ds)"
  by (auto simp: a1_cell_def list_all_iff dest: isUpper_not_colon isDigit_not_colon)

lemma match_run_letters:
  assumes "a1_cell ls ds"
  shows "match_run isUpper (ls @ ds) = Some ls"
proof -
  from assms obtain l ls' where ls: "ls = l # ls'" and l: "isUpper l"
    by (cases ls) (auto simp: a1_cell_def)
  from assms obtain d ds' where ds: "ds = d # ds'" and d: "isDigit d"
    by (cases ds) (auto simp: a1_cell_def)
  have all: "\<And>x. x \<in> set ls \<Longrightarrow> isUpper x"
    using assms by (simp add: a1_cell_def list_all_iff)
  have "\<not> isUpper d"
    using d isUpper_not_isDigit by blast
  then have "takeWhile isUpper (ls @ ds) = ls"
    using all by (simp add: takeWhile_append2 ds)
  moreover have "dropWhile (\<lambda>c. \<not> isUpper c) (ls @ ds) = ls @ ds"
    using l by (simp add: ls)
  ultimately show ?thesis
    by (simp add: match_run_def ls)
qed

lemma match_run_digits:
  assumes "a1_cell ls ds"
  shows "match_run isDigit (ls @ ds) = Some ds"
proof -
  from assms obtain d ds' where ds: "ds = d # ds'" and d: "isDigit d"
    by (cases ds) (auto simp: a1_cell_def)
  have nodigit: "\<And>x. x \<in> set ls \<Longrightarrow> \<not> isDigit x"
    using assms isUpper_not_isDigit by (auto simp: a1_cell_def list_all_iff)
  have alld: "\<And>x. x \<in> set ds \<Longrightarrow> isDigit x"
    using assms by (simp add: a1_cell_def list_all_iff)
  have "dropWhile (\<lambda>c. \<not> isDigit c) (ls @ ds) = dropWhile (\<lambda>c. \<not> isDigit c) ds"
    using nodigit by (simp add: dropWhile_append2)
  also have "\<dots> = ds"
    using d by (simp add: ds)
  finally have drop: "dropWhile (\<lambda>c. \<not> isDigit c) (ls @ ds) = d # ds'"
    by (simp add: ds)
  have "takeWhile isDigit ds = ds"
    using alld by (simp add: takeWhile_eq_all_conv)
  then have "takeWhile isDigit (d # ds') = ds"
    by (simp only: ds)
  then show ?thesis
    by (simp only: match_run_def drop list.case)
qed

lemma checkDimensions_a1_range:
  assumes s: "a1_cell ls1 ds1" and e: "a1_cell ls2 ds2"
  shows "checkDimensions (ls1 @ ds1 @ CHR '':'' # ls2 @ ds2) vals =
     (if int (length vals) = parseInt ds2 - parseInt ds1 + 1 \<and>
         first_row_length vals = colToNum ls2 - colToNum ls1 + 1
      then None
      else Some (DimensionMismatch (ls1 @ ds1 @ CHR '':'' # ls2 @ ds2)
             (parseInt ds2 - parseInt ds1 + 1) (colToNum ls2 - colToNum ls1 + 1)
             (int (length vals)) (first_row_length vals)))"
proof -
  have "js_split (CHR '':'') ((ls1 @ ds1) @ CHR '':'' # (ls2 @ ds2)) = [ls1 @ ds1, ls2 @ ds2]"
    using a1_cell_no_colon [OF s] a1_cell_no_colon [OF e] by (rule js_split_one_separator)
  then have split: "js_split (CHR '':'') (ls1 @ ds1 @ CHR '':'' # ls2 @ ds2) =
      [ls1 @ ds1, ls2 @ ds2]"
    by simp
  show ?thesis
    unfolding checkDimensions_def split
    by (simp add: match_run_letters [OF s] match_run_digits [OF s] match_run_letters [OF e]
        match_run_digits [OF e] first_row_length_def Let_def eq_commute)
qed

text \<open>
  The \<^verbatim>\<open>setRangeValues\<close> branch on a well-formed two-cell address: it throws exactly when
  the payload's outer length or first-row length differs from the address, and then
  nothing is queued.
\<close>

lemma setRangeValues_checked:
  assumes "a1_cell ls1 ds1" and "a1_cell ls2 ds2"
  shows "applyAction (SetRangeValues sheet (ls1 @ ds1 @ CHR '':'' # ls2 @ ds2) vals) =
     (if int (length vals) = parseInt ds2 - parseInt ds1 + 1 \<and>
         first_row_length vals = colToNum ls2 - colToNum ls1 + 1
      then Inr [WriteValues sheet (ls1 @ ds1 @ CHR '':'' # ls2 @ ds2) vals]
      else Inl (DimensionMismatch (ls1 @ ds1 @ CHR '':'' # ls2 @ ds2)
             (parseInt ds2 - parseInt ds1 + 1) (colToNum ls2 - colToNum ls1 + 1)
             (int (length vals)) (first_row_length vals)))"
  by (simp add: checkDimensions_a1_range [OF assms])

section \<open>Snapshot extraction (ModelChat.tsx, \<^verbatim>\<open>extractModelSnapshot\<close>)\<close>

text \<open>
  What the Grid Accessor hands over for one sheet once \<^verbatim>\<open>usedRange.load(...)\<close> has been
  synchronized: the three grids, the address, the size and the absolute position of the
  used range, and the format of each of its cells (\<^verbatim>\<open>usedRange.getCell(row, col).format\<close>
  after its own load). The reads are the input of the model; a failing barrier during
  extraction is outside it.
\<close>

record cell_format =
  font_bold :: jsval
  font_color :: jsval
  fill_color :: jsval

record used_range =
  ur_values :: "jsval list list"
  ur_formulas :: "jsval list list"
  ur_numberFormat :: "jsval list list"
  ur_address :: string
  ur_rowCount :: nat
  ur_columnCount :: nat
  ur_rowIndex :: nat
  ur_columnIndex :: nat
  ur_cellFormat :: "nat \<Rightarrow> nat \<Rightarrow> cell_format"

record cell_record =
  row :: nat
  col :: nat
  "value" :: jsval
  formula :: jsval
  numberFormat :: jsval
  bold :: jsval
  fontColor :: jsval
  fillColor :: jsval

record sheet_snapshot =
  cells :: "cell_record list"
  address :: string

text \<open>
  \<^verbatim>\<open>grid[r][c]\<close> on an array of arrays: a missing row makes the second index a TypeError,
  a missing column gives \<^verbatim>\<open>undefined\<close>.
\<close>

definition index2 :: "jsval list list \<Rightarrow> nat \<Rightarrow> nat \<Rightarrow> js_error + jsval" where
  "index2 grid r c =
     (if r < length grid
      then (if c < length (grid ! r) then Inr (grid ! r ! c) else Inr JUndefined)
      else Inl TypeError)"

text \<open>\<^verbatim>\<open>x === "" || x === null\<close>.\<close>

definition is_empty :: "jsval \<Rightarrow> bool" where
  "is_empty x = (x = JStr [] \<or> x = JNull)"

text \<open>The inner loop over \<open>col\<close>, for the columns still to visit, with the array \<open>cells\<close>.\<close>

fun extract_cols ::
  "used_range \<Rightarrow> nat \<Rightarrow> nat list \<Rightarrow> cell_record list \<Rightarrow> js_error + cell_record list" where
  "extract_cols u r [] acc = Inr acc"
| "extract_cols u r (c # cs) acc =
     (case index2 (ur_values u) r c of
        Inl err \<Rightarrow> Inl err
      | Inr v \<Rightarrow>
     (case index2 (ur_formulas u) r c of
        Inl err \<Rightarrow> Inl err
      | Inr f \<Rightarrow>
          if is_empty v \<and> is_empty f then extract_cols u r cs acc
          else
            (case index2 (ur_numberFormat u) r c of
               Inl err \<Rightarrow> Inl err
             | Inr nf \<Rightarrow>
                 extract_cols u r cs
                   (acc @ [\<lparr>row = ur_rowIndex u + r, col = ur_columnIndex u + c,
                            value = v, formula = js_or f JNull, numberFormat = nf,
                            bold = font_bold (ur_cellFormat u r c),
                            fontColor = font_color (ur_cellFormat u r c),
                            fillColor = fill_color (ur_cellFormat u r c)\<rparr>]))))"

text \<open>The outer loop over \<open>row\<close>.\<close>

fun extract_rows ::
  "used_range \<Rightarrow> nat list \<Rightarrow> cell_record list \<Rightarrow> js_error + cell_record list" where
  "extract_rows u [] acc = Inr acc"
| "extract_rows u (r # rs) acc =
     (case extract_cols u r [0..<ur_columnCount u] acc of
        Inl err \<Rightarrow> Inl err
      | Inr acc' \<Rightarrow> extract_rows u rs acc')"

definition extractSheet :: "used_range \<Rightarrow> js_error + sheet_snapshot" where
  "extractSheet u =
     (case extract_rows u [0..<ur_rowCount u] [] of
        Inl err \<Rightarrow> Inl err
      | Inr cs \<Rightarrow> Inr \<lparr>cells = cs, address = ur_address u\<rparr>)"

text \<open>
  The loop over the sheets: \<^verbatim>\<open>snapshot[sheet.name] = {cells, address}\<close> on the plain
  object \<^verbatim>\<open>snapshot\<close>. The map holds the object's own properties. An assignment to the
  key \<^verbatim>\<open>__proto__\<close> replaces the prototype of a plain object and creates no own
  property, so a sheet of that name leaves no entry.
\<close>

fun extractModelSnapshot ::
  "(string \<times> used_range) list \<Rightarrow> (string \<rightharpoonup> sheet_snapshot) \<Rightarrow>
   js_error + (string \<rightharpoonup> sheet_snapshot)" where
  "extractModelSnapshot [] snapshot = Inr snapshot"
| "extractModelSnapshot ((name, u) # sheets) snapshot =
     (case extractSheet u of
        Inl err \<Rightarrow> Inl err
      | Inr s \<Rightarrow>
          extractModelSnapshot sheets
            (if name = ''__proto__'' then snapshot else snapshot(name \<mapsto> s)))"

text \<open>
  The used range is well formed when its grids have \<open>rowCount\<close> rows of \<open>columnCount\<close>
  entries, which is what the host returns.
\<close>

definition grid_shape :: "nat \<Rightarrow> nat \<Rightarrow> jsval list list \<Rightarrow> bool" where
  "grid_shape m n grid = (length grid = m \<and> list_all (\<lambda>r. length r = n) grid)"










section \<open>A model of the Grid Accessor\<close>

text \<open>
  Modelled from the spec: the Grid Accessor (the spreadsheet host behind the Office.js
  proxies) is an external collaborator and the repository holds none of its code. The
  model follows the specification's description of it: sheets by name, cells with a
  value, a formula and formatting, writes that take effect at the barrier, a clear that
  removes contents and preserves formatting, and a barrier that fails with a host error.
  Only plain references (\<^verbatim>\<open>A1\<close>, \<^verbatim>\<open>A1:C2\<close>) and the clear mode the repository uses
  (\<^verbatim>\<open>'Contents'\<close>) are modelled; recalculation of formulas is outside the model, so a
  formula write leaves the value of the cell as it was.
\<close>

record grid_cell =
  gc_value :: jsval
  gc_formula :: jsval
  gc_numberFormat :: jsval
  gc_bold :: jsval
  gc_fillColor :: jsval
  gc_fontColor :: jsval

type_synonym worksheet = "nat \<times> nat \<Rightarrow> grid_cell"

type_synonym workbook = "string \<rightharpoonup> worksheet"

text \<open>A rectangle: top row, left column, bottom row, right column, zero-based, inclusive.\<close>

type_synonym rect = "nat \<times> nat \<times> nat \<times> nat"

definition in_rect :: "rect \<Rightarrow> nat \<times> nat \<Rightarrow> bool" where
  "in_rect rc p =
     (case rc of (r0, c0, r1, c1) \<Rightarrow>
        r0 \<le> fst p \<and> fst p \<le> r1 \<and> c0 \<le> snd p \<and> snd p \<le> c1)"

definition parse_cell :: "string \<Rightarrow> (nat \<times> nat) option" where
  "parse_cell s =
     (let letters = takeWhile isUpper s; digits = dropWhile isUpper s
      in if letters \<noteq> [] \<and> digits \<noteq> [] \<and> list_all isDigit digits \<and> 0 < parseInt digits
         then Some (nat (parseInt digits - 1), nat (colToNum letters - 1))
         else None)"

definition resolve_address :: "string \<Rightarrow> rect option" where
  "resolve_address a =
     (case js_split (CHR '':'') a of
        [single] \<Rightarrow>
          (case parse_cell single of
             None \<Rightarrow> None
           | Some (r, c) \<Rightarrow> Some (r, c, r, c))
      | [first, second] \<Rightarrow>
          (case parse_cell first of
             None \<Rightarrow> None
           | Some (r0, c0) \<Rightarrow>
          (case parse_cell second of
             None \<Rightarrow> None
           | Some (r1, c1) \<Rightarrow> Some (min r0 r1, min c0 c1, max r0 r1, max c0 c1)))
      | _ \<Rightarrow> None)"

text \<open>
  Updating the cells of a rectangle: the update is given the offsets of the cell within
  the rectangle.
\<close>

definition write_cells ::
  "rect \<Rightarrow> (nat \<Rightarrow> nat \<Rightarrow> grid_cell \<Rightarrow> grid_cell) \<Rightarrow> worksheet \<Rightarrow> worksheet" where
  "write_cells rc f ws =
     (\<lambda>p. if in_rect rc p
          then f (fst p - fst rc) (snd p - fst (snd rc)) (ws p)
          else ws p)"

definition payload_fits :: "rect \<Rightarrow> jsval list list \<Rightarrow> bool" where
  "payload_fits rc vals =
     (case rc of (r0, c0, r1, c1) \<Rightarrow> grid_shape (r1 - r0 + 1) (c1 - c0 + 1) vals)"

definition on_range ::
  "string \<Rightarrow> string \<Rightarrow> (rect \<Rightarrow> host_error + (nat \<Rightarrow> nat \<Rightarrow> grid_cell \<Rightarrow> grid_cell)) \<Rightarrow>
   workbook \<Rightarrow> host_error + workbook" where
  "on_range sheet addr g wb =
     (case wb sheet of
        None \<Rightarrow> Inl (ItemNotFound sheet)
      | Some ws \<Rightarrow>
          (case resolve_address addr of
             None \<Rightarrow> Inl (InvalidArgument addr)
           | Some rc \<Rightarrow>
               (case g rc of
                  Inl e \<Rightarrow> Inl e
                | Inr f \<Rightarrow> Inr (wb(sheet \<mapsto> write_cells rc f ws)))))"

text \<open>
  Modelled from the spec: the effect of one queued operation on the document, which is the
  host's and not in the repository (\<^verbatim>\<open>writeCellValue\<close>, \<^verbatim>\<open>writeCellFormula\<close>,
  \<^verbatim>\<open>writeRange\<close>, \<^verbatim>\<open>clearRange\<close>, \<^verbatim>\<open>writeFormat\<close> of the Grid Accessor). A literal
  written as a value is also what the cell then reports as its formula text; a format
  write changes the one format field it names; a range write whose payload does not have
  the shape of the range is refused.
\<close>

fun commit_op :: "op \<Rightarrow> workbook \<Rightarrow> host_error + workbook" where
  "commit_op (WriteValues sheet addr vals) wb =
     on_range sheet addr
       (\<lambda>rc. if payload_fits rc vals
             then Inr (\<lambda>i j k. k\<lparr>gc_value := vals ! i ! j, gc_formula := vals ! i ! j\<rparr>)
             else Inl (InvalidArgument addr)) wb"
| "commit_op (WriteFormulas sheet addr fs) wb =
     on_range sheet addr
       (\<lambda>rc. if payload_fits rc fs
             then Inr (\<lambda>i j k. k\<lparr>gc_formula := fs ! i ! j\<rparr>)
             else Inl (InvalidArgument addr)) wb"
| "commit_op (ClearOp sheet addr applyTo) wb =
     on_range sheet addr
       (\<lambda>rc. if applyTo = ''Contents''
             then Inr (\<lambda>i j k. k\<lparr>gc_value := JStr [], gc_formula := JStr []\<rparr>)
             else Inl (InvalidArgument applyTo)) wb"
| "commit_op (WriteFontBold sheet addr v) wb =
     on_range sheet addr (\<lambda>rc. Inr (\<lambda>i j k. k\<lparr>gc_bold := v\<rparr>)) wb"
| "commit_op (WriteNumberFormat sheet addr v) wb =
     on_range sheet addr (\<lambda>rc. Inr (\<lambda>i j k. k\<lparr>gc_numberFormat := v\<rparr>)) wb"
| "commit_op (WriteFillColor sheet addr v) wb =
     on_range sheet addr (\<lambda>rc. Inr (\<lambda>i j k. k\<lparr>gc_fillColor := v\<rparr>)) wb"
| "commit_op (WriteFontColor sheet addr v) wb =
     on_range sheet addr (\<lambda>rc. Inr (\<lambda>i j k. k\<lparr>gc_fontColor := v\<rparr>)) wb"
| "commit_op (Activate sheet) wb =
     (case wb sheet of None \<Rightarrow> Inl (ItemNotFound sheet) | Some ws \<Rightarrow> Inr wb)"
| "commit_op (Select sheet addr) wb =
     on_range sheet addr (\<lambda>rc. Inr (\<lambda>i j k. k)) wb"

text \<open>
  Modelled from the spec: the host's synchronization barrier (\<^verbatim>\<open>sync()\<close> of the Grid
  Accessor). It commits the queue in order and stops with a host error at the first
  operation the host refuses; what was committed before stays.
\<close>

fun excel_sync :: "op list \<Rightarrow> workbook \<Rightarrow> host_error option \<times> workbook" where
  "excel_sync [] wb = (None, wb)"
| "excel_sync (x # xs) wb =
     (case commit_op x wb of
        Inl e \<Rightarrow> (Some e, wb)
      | Inr wb' \<Rightarrow> excel_sync xs wb')"

text \<open>A field of a cell of a sheet of the workbook, when the sheet exists.\<close>

definition cell_field ::
  "(grid_cell \<Rightarrow> jsval) \<Rightarrow> workbook \<Rightarrow> string \<Rightarrow> nat \<times> nat \<Rightarrow> jsval option" where
  "cell_field fld wb sheet p = map_option (\<lambda>ws. fld (ws p)) (wb sheet)"

section \<open>Clearing a range\<close>

text \<open>
  C5. A \<^verbatim>\<open>clearRange\<close> action on an existing sheet and a range the host resolves empties
  the value and the formula of every cell of the range, leaves each of their formatting
  fields (bold, number format, fill colour, font colour) as it was, and leaves every cell
  outside the range, on this sheet and on the others, unchanged.
\<close>

theorem clearRange_contents_only:
  assumes "wb sheet = Some ws" and "resolve_address rng = Some rc"
  shows "\<exists>ws'. executeActions excel_sync [ClearRange sheet rng] wb =
           \<lparr>res_document = wb(sheet \<mapsto> ws'), res_synced = True, res_thrown = None\<rparr> \<and>
         (\<forall>p. if in_rect rc p
              then gc_value (ws' p) = JStr [] \<and> gc_formula (ws' p) = JStr [] \<and>
                   gc_bold (ws' p) = gc_bold (ws p) \<and>
                   gc_numberFormat (ws' p) = gc_numberFormat (ws p) \<and>
                   gc_fillColor (ws' p) = gc_fillColor (ws p) \<and>
                   gc_fontColor (ws' p) = gc_fontColor (ws p)
              else ws' p = ws p)"
proof -
  let ?ws' = "write_cells rc (\<lambda>i j k. k\<lparr>gc_value := JStr [], gc_formula := JStr []\<rparr>) ws"
  have "executeActions excel_sync [ClearRange sheet rng] wb =
      \<lparr>res_document = wb(sheet \<mapsto> ?ws'), res_synced = True, res_thrown = None\<rparr>"
    using assms by (simp add: executeActions_def on_range_def)
  moreover have "\<forall>p. if in_rect rc p
      then gc_value (?ws' p) = JStr [] \<and> gc_formula (?ws' p) = JStr [] \<and>
           gc_bold (?ws' p) = gc_bold (ws p) \<and>
           gc_numberFormat (?ws' p) = gc_numberFormat (ws p) \<and>
           gc_fillColor (?ws' p) = gc_fillColor (ws p) \<and>
           gc_fontColor (?ws' p) = gc_fontColor (ws p)
      else ?ws' p = ws p"
    by (simp add: write_cells_def)
  ultimately show ?thesis
    by blast
qed

definition example_sheet :: worksheet where
  "example_sheet =
     (\<lambda>p. \<lparr>gc_value = JNum 7, gc_formula = JStr ''=3+4'', gc_numberFormat = JStr ''0.00'',
           gc_bold = JBool True, gc_fillColor = JStr ''#FFFF00'',
           gc_fontColor = JStr ''#FF0000''\<rparr>)"

lemma resolve_address_example: "resolve_address ''A1:B2'' = Some (0, 0, 1, 1)"
  by (simp add: resolve_address_def parse_cell_def isUpper_def isDigit_def parseInt_def
      colToNum_def)

theorem clearRange_contents_only_witness:
  "(case res_document (executeActions excel_sync [ClearRange ''DCF'' ''A1:B2'']
          [''DCF'' \<mapsto> example_sheet]) ''DCF'' of
      None \<Rightarrow> False
    | Some ws' \<Rightarrow>
        ws' (1, 1) = \<lparr>gc_value = JStr [], gc_formula = JStr [], gc_numberFormat = JStr ''0.00'',
           gc_bold = JBool True, gc_fillColor = JStr ''#FFFF00'',
           gc_fontColor = JStr ''#FF0000''\<rparr> \<and>
        ws' (2, 1) = example_sheet (2, 1))"
proof -
  have sheet: "[''DCF'' \<mapsto> example_sheet] ''DCF'' = Some example_sheet"
    by simp
  obtain ws' where
    run: "executeActions excel_sync [ClearRange ''DCF'' ''A1:B2''] [''DCF'' \<mapsto> example_sheet] =
      \<lparr>res_document = [''DCF'' \<mapsto> example_sheet, ''DCF'' \<mapsto> ws'], res_synced = True,
       res_thrown = None\<rparr>"
    and cellsOf: "\<And>p. if in_rect (0, 0, 1, 1) p
      then gc_value (ws' p) = JStr [] \<and> gc_formula (ws' p) = JStr [] \<and>
           gc_bold (ws' p) = gc_bold (example_sheet p) \<and>
           gc_numberFormat (ws' p) = gc_numberFormat (example_sheet p) \<and>
           gc_fillColor (ws' p) = gc_fillColor (example_sheet p) \<and>
           gc_fontColor (ws' p) = gc_fontColor (example_sheet p)
      else ws' p = example_sheet p"
    using clearRange_contents_only
      [of "[''DCF'' \<mapsto> example_sheet]" "''DCF''" example_sheet "''A1:B2''" "(0, 0, 1, 1)"]
      sheet resolve_address_example
    by blast
  have inside: "ws' (1, 1) = \<lparr>gc_value = JStr [], gc_formula = JStr [],
      gc_numberFormat = JStr ''0.00'', gc_bold = JBool True, gc_fillColor = JStr ''#FFFF00'',
      gc_fontColor = JStr ''#FF0000''\<rparr>"
    using cellsOf [of "(1, 1)"] by (cases "ws' (1, 1)") (simp add: in_rect_def example_sheet_def)
  have outside: "ws' (2, 1) = example_sheet (2, 1)"
    using cellsOf [of "(2, 1)"] by (simp add: in_rect_def)
  show ?thesis
    using inside outside by (simp add: run)
qed

section \<open>Formatting a cell\<close>

lemma on_range_keeps_field:
  assumes "on_range sh a g w = Inr w'"
    and "\<And>rc f i j k. g rc = Inr f \<Longrightarrow> fld (f i j k) = fld k"
  shows "cell_field fld w' s p = cell_field fld w s p"
proof -
  from assms(1) obtain ws rc f where ws: "w sh = Some ws" and f: "g rc = Inr f"
    and w': "w' = w(sh \<mapsto> write_cells rc f ws)"
    by (auto simp: on_range_def split: option.splits sum.splits)
  show ?thesis
    using ws assms(2) [OF f] by (simp add: w' cell_field_def write_cells_def)
qed

lemma on_range_keeps_value:
  assumes "on_range sh a g w = Inr w'"
    and "\<And>rc f i j k. g rc = Inr f \<Longrightarrow> fld k = v \<Longrightarrow> fld (f i j k) = v"
    and "cell_field fld w s p = Some v"
  shows "cell_field fld w' s p = Some v"
proof -
  from assms(1) obtain ws rc f where ws: "w sh = Some ws" and f: "g rc = Inr f"
    and w': "w' = w(sh \<mapsto> write_cells rc f ws)"
    by (auto simp: on_range_def split: option.splits sum.splits)
  show ?thesis
    using ws assms(2) [OF f] assms(3) by (auto simp: w' cell_field_def write_cells_def)
qed

lemma excel_sync_invariant:
  assumes step: "\<And>x w w'. x \<in> set ops \<Longrightarrow> P w \<Longrightarrow> commit_op x w = Inr w' \<Longrightarrow> P w'"
    and init: "P wb"
  shows "P (snd (excel_sync ops wb))"
  using step init
proof (induction ops arbitrary: wb)
  case Nil
  then show ?case by simp
next
  case (Cons x xs)
  have tl: "\<And>y w w'. y \<in> set xs \<Longrightarrow> P w \<Longrightarrow> commit_op y w = Inr w' \<Longrightarrow> P w'"
  proof -
    fix y w w'
    assume "y \<in> set xs" and "P w" and "commit_op y w = Inr w'"
    moreover from \<open>y \<in> set xs\<close> have "y \<in> set (x # xs)"
      by simp
    ultimately show "P w'"
      using Cons.prems(1) [of y w w'] by simp
  qed
  show ?case
  proof (cases "commit_op x wb")
    case (Inl e)
    then show ?thesis
      using Cons.prems(2) by simp
  next
    case (Inr w')
    have "x \<in> set (x # xs)"
      by simp
    then have "P w'"
      using Cons.prems(1) [of x wb w'] Cons.prems(2) Inr by simp
    with tl have "P (snd (excel_sync xs w'))"
      by (rule Cons.IH)
    then show ?thesis
      using Inr by simp
  qed
qed



lemma executeActions_formatCell:
  "res_document (executeActions excel_sync [FormatCell sheet addr fmt] wb) =
     snd (excel_sync (queued_ops (FormatCell sheet addr fmt)) wb)"
proof -
  let ?a = "FormatCell sheet addr fmt"
  have "\<not> throws ?a"
    by (simp add: throws_def)
  then have "applyAction ?a = Inr (queued_ops ?a)"
    by (rule applyAction_ok)
  then have run: "runActions [?a] [] = Inr (queued_ops ?a)"
    by (simp only: runActions.simps sum.case append_Nil)
  obtain e d where sync: "excel_sync (queued_ops ?a) wb = (e, d)"
    by (cases "excel_sync (queued_ops ?a) wb")
  have "executeActions excel_sync [?a] wb =
      (case (e, d) of
         (None, doc') \<Rightarrow> \<lparr>res_document = doc', res_synced = True, res_thrown = None\<rparr>
       | (Some err, doc') \<Rightarrow>
           \<lparr>res_document = doc', res_synced = True, res_thrown = Some (SyncError err)\<rparr>)"
    by (simp only: executeActions_def run sum.case sync)
  then show ?thesis
    by (cases e) (simp_all add: sync)
qed

lemma formatCell_ops:
  "x \<in> set (queued_ops (FormatCell sheet addr fmt)) \<Longrightarrow>
     (x = WriteFontBold sheet addr (JBool True) \<and> truthy (fmt_bold fmt)) \<or>
     (x = WriteNumberFormat sheet addr (fmt_numberFormat fmt) \<and> truthy (fmt_numberFormat fmt)) \<or>
     (x = WriteFillColor sheet addr (fmt_bgColor fmt) \<and> truthy (fmt_bgColor fmt)) \<or>
     (x = WriteFontColor sheet addr (fmt_fontColor fmt) \<and> truthy (fmt_fontColor fmt))"
  by (auto simp: queued_ops_def split: if_splits)

lemma commit_bold_keeps:
  assumes "commit_op (WriteFontBold sh a v) w = Inr w'"
  shows "cell_field gc_numberFormat w' s p = cell_field gc_numberFormat w s p"
    and "cell_field gc_fillColor w' s p = cell_field gc_fillColor w s p"
    and "cell_field gc_fontColor w' s p = cell_field gc_fontColor w s p"
proof -
  from assms have o: "on_range sh a (\<lambda>rc. Inr (\<lambda>i j k. k\<lparr>gc_bold := v\<rparr>)) w = Inr w'"
    by simp
  show "cell_field gc_numberFormat w' s p = cell_field gc_numberFormat w s p"
    using o by (rule on_range_keeps_field) auto
  show "cell_field gc_fillColor w' s p = cell_field gc_fillColor w s p"
    using o by (rule on_range_keeps_field) auto
  show "cell_field gc_fontColor w' s p = cell_field gc_fontColor w s p"
    using o by (rule on_range_keeps_field) auto
qed

lemma commit_numberFormat_keeps:
  assumes "commit_op (WriteNumberFormat sh a v) w = Inr w'"
  shows "cell_field gc_bold w' s p = cell_field gc_bold w s p"
    and "cell_field gc_fillColor w' s p = cell_field gc_fillColor w s p"
    and "cell_field gc_fontColor w' s p = cell_field gc_fontColor w s p"
proof -
  from assms have o: "on_range sh a (\<lambda>rc. Inr (\<lambda>i j k. k\<lparr>gc_numberFormat := v\<rparr>)) w = Inr w'"
    by simp
  show "cell_field gc_bold w' s p = cell_field gc_bold w s p"
    using o by (rule on_range_keeps_field) auto
  show "cell_field gc_fillColor w' s p = cell_field gc_fillColor w s p"
    using o by (rule on_range_keeps_field) auto
  show "cell_field gc_fontColor w' s p = cell_field gc_fontColor w s p"
    using o by (rule on_range_keeps_field) auto
qed

lemma commit_fillColor_keeps:
  assumes "commit_op (WriteFillColor sh a v) w = Inr w'"
  shows "cell_field gc_bold w' s p = cell_field gc_bold w s p"
    and "cell_field gc_numberFormat w' s p = cell_field gc_numberFormat w s p"
    and "cell_field gc_fontColor w' s p = cell_field gc_fontColor w s p"
proof -
  from assms have o: "on_range sh a (\<lambda>rc. Inr (\<lambda>i j k. k\<lparr>gc_fillColor := v\<rparr>)) w = Inr w'"
    by simp
  show "cell_field gc_bold w' s p = cell_field gc_bold w s p"
    using o by (rule on_range_keeps_field) auto
  show "cell_field gc_numberFormat w' s p = cell_field gc_numberFormat w s p"
    using o by (rule on_range_keeps_field) auto
  show "cell_field gc_fontColor w' s p = cell_field gc_fontColor w s p"
    using o by (rule on_range_keeps_field) auto
qed

lemma commit_fontColor_keeps:
  assumes "commit_op (WriteFontColor sh a v) w = Inr w'"
  shows "cell_field gc_bold w' s p = cell_field gc_bold w s p"
    and "cell_field gc_numberFormat w' s p = cell_field gc_numberFormat w s p"
    and "cell_field gc_fillColor w' s p = cell_field gc_fillColor w s p"
proof -
  from assms have o: "on_range sh a (\<lambda>rc. Inr (\<lambda>i j k. k\<lparr>gc_fontColor := v\<rparr>)) w = Inr w'"
    by simp
  show "cell_field gc_bold w' s p = cell_field gc_bold w s p"
    using o by (rule on_range_keeps_field) auto
  show "cell_field gc_numberFormat w' s p = cell_field gc_numberFormat w s p"
    using o by (rule on_range_keeps_field) auto
  show "cell_field gc_fillColor w' s p = cell_field gc_fillColor w s p"
    using o by (rule on_range_keeps_field) auto
qed

lemma commit_bold_true_stays:
  assumes "commit_op (WriteFontBold sh a (JBool True)) w = Inr w'"
    and "cell_field gc_bold w s p = Some (JBool True)"
  shows "cell_field gc_bold w' s p = Some (JBool True)"
proof -
  from assms(1) have o:
    "on_range sh a (\<lambda>rc. Inr (\<lambda>i j k. k\<lparr>gc_bold := JBool True\<rparr>)) w = Inr w'"
    by simp
  show ?thesis
    using o _ assms(2) by (rule on_range_keeps_value) auto
qed

text \<open>One committed operation of a \<^verbatim>\<open>formatCell\<close> action and the four format fields.\<close>

lemma formatCell_op_keeps:
  assumes x: "x \<in> set (queued_ops (FormatCell sheet addr fmt))"
    and c: "commit_op x w = Inr w'"
  shows "\<not> truthy (fmt_bold fmt) \<Longrightarrow> cell_field gc_bold w' s p = cell_field gc_bold w s p"
    and "\<not> truthy (fmt_numberFormat fmt) \<Longrightarrow>
      cell_field gc_numberFormat w' s p = cell_field gc_numberFormat w s p"
    and "\<not> truthy (fmt_bgColor fmt) \<Longrightarrow>
      cell_field gc_fillColor w' s p = cell_field gc_fillColor w s p"
    and "\<not> truthy (fmt_fontColor fmt) \<Longrightarrow>
      cell_field gc_fontColor w' s p = cell_field gc_fontColor w s p"
    and "cell_field gc_bold w s p = Some (JBool True) \<Longrightarrow>
      cell_field gc_bold w' s p = Some (JBool True)"
proof -
  note ops = formatCell_ops [OF x]
  show "cell_field gc_bold w' s p = cell_field gc_bold w s p" if "\<not> truthy (fmt_bold fmt)"
    using ops that c commit_numberFormat_keeps(1) commit_fillColor_keeps(1)
      commit_fontColor_keeps(1)
    by metis
  show "cell_field gc_numberFormat w' s p = cell_field gc_numberFormat w s p"
    if "\<not> truthy (fmt_numberFormat fmt)"
    using ops that c commit_bold_keeps(1) commit_fillColor_keeps(2) commit_fontColor_keeps(2)
    by metis
  show "cell_field gc_fillColor w' s p = cell_field gc_fillColor w s p"
    if "\<not> truthy (fmt_bgColor fmt)"
    using ops that c commit_bold_keeps(2) commit_numberFormat_keeps(2)
      commit_fontColor_keeps(3)
    by metis
  show "cell_field gc_fontColor w' s p = cell_field gc_fontColor w s p"
    if "\<not> truthy (fmt_fontColor fmt)"
    using ops that c commit_bold_keeps(3) commit_numberFormat_keeps(3)
      commit_fillColor_keeps(3)
    by metis
  show "cell_field gc_bold w' s p = Some (JBool True)"
    if "cell_field gc_bold w s p = Some (JBool True)"
    using ops that c commit_bold_true_stays commit_numberFormat_keeps(1)
      commit_fillColor_keeps(1) commit_fontColor_keeps(1)
    by metis
qed

lemma formatCell_keeps_bold:
  assumes "\<not> truthy (fmt_bold fmt)"
  shows "cell_field gc_bold (snd (excel_sync (queued_ops (FormatCell sheet addr fmt)) wb)) s p =
     cell_field gc_bold wb s p"
proof (rule excel_sync_invariant
    [where P = "\<lambda>w. cell_field gc_bold w s p = cell_field gc_bold wb s p"])
  fix x w w'
  assume "x \<in> set (queued_ops (FormatCell sheet addr fmt))" and "commit_op x w = Inr w'"
  then have "cell_field gc_bold w' s p = cell_field gc_bold w s p"
    using assms by (rule formatCell_op_keeps(1))
  moreover assume "cell_field gc_bold w s p = cell_field gc_bold wb s p"
  ultimately show "cell_field gc_bold w' s p = cell_field gc_bold wb s p"
    by simp
qed (rule refl)

lemma formatCell_keeps_numberFormat:
  assumes "\<not> truthy (fmt_numberFormat fmt)"
  shows "cell_field gc_numberFormat
       (snd (excel_sync (queued_ops (FormatCell sheet addr fmt)) wb)) s p =
     cell_field gc_numberFormat wb s p"
proof (rule excel_sync_invariant
    [where P = "\<lambda>w. cell_field gc_numberFormat w s p = cell_field gc_numberFormat wb s p"])
  fix x w w'
  assume "x \<in> set (queued_ops (FormatCell sheet addr fmt))" and "commit_op x w = Inr w'"
  then have "cell_field gc_numberFormat w' s p = cell_field gc_numberFormat w s p"
    using assms by (rule formatCell_op_keeps(2))
  moreover assume "cell_field gc_numberFormat w s p = cell_field gc_numberFormat wb s p"
  ultimately show "cell_field gc_numberFormat w' s p = cell_field gc_numberFormat wb s p"
    by simp
qed (rule refl)

lemma formatCell_keeps_fillColor:
  assumes "\<not> truthy (fmt_bgColor fmt)"
  shows "cell_field gc_fillColor
       (snd (excel_sync (queued_ops (FormatCell sheet addr fmt)) wb)) s p =
     cell_field gc_fillColor wb s p"
proof (rule excel_sync_invariant
    [where P = "\<lambda>w. cell_field gc_fillColor w s p = cell_field gc_fillColor wb s p"])
  fix x w w'
  assume "x \<in> set (queued_ops (FormatCell sheet addr fmt))" and "commit_op x w = Inr w'"
  then have "cell_field gc_fillColor w' s p = cell_field gc_fillColor w s p"
    using assms by (rule formatCell_op_keeps(3))
  moreover assume "cell_field gc_fillColor w s p = cell_field gc_fillColor wb s p"
  ultimately show "cell_field gc_fillColor w' s p = cell_field gc_fillColor wb s p"
    by simp
qed (rule refl)

lemma formatCell_keeps_fontColor:
  assumes "\<not> truthy (fmt_fontColor fmt)"
  shows "cell_field gc_fontColor
       (snd (excel_sync (queued_ops (FormatCell sheet addr fmt)) wb)) s p =
     cell_field gc_fontColor wb s p"
proof (rule excel_sync_invariant
    [where P = "\<lambda>w. cell_field gc_fontColor w s p = cell_field gc_fontColor wb s p"])
  fix x w w'
  assume "x \<in> set (queued_ops (FormatCell sheet addr fmt))" and "commit_op x w = Inr w'"
  then have "cell_field gc_fontColor w' s p = cell_field gc_fontColor w s p"
    using assms by (rule formatCell_op_keeps(4))
  moreover assume "cell_field gc_fontColor w s p = cell_field gc_fontColor wb s p"
  ultimately show "cell_field gc_fontColor w' s p = cell_field gc_fontColor wb s p"
    by simp
qed (rule refl)

lemma formatCell_never_clears_bold:
  assumes "cell_field gc_bold wb s p = Some (JBool True)"
  shows "cell_field gc_bold (snd (excel_sync (queued_ops (FormatCell sheet addr fmt)) wb)) s p =
     Some (JBool True)"
proof (rule excel_sync_invariant [where P = "\<lambda>w. cell_field gc_bold w s p = Some (JBool True)"])
  fix x w w'
  assume "x \<in> set (queued_ops (FormatCell sheet addr fmt))" and "commit_op x w = Inr w'"
  moreover assume "cell_field gc_bold w s p = Some (JBool True)"
  ultimately show "cell_field gc_bold w' s p = Some (JBool True)"
    by (rule formatCell_op_keeps(5))
qed (rule assms)

text \<open>
  C10. A \<^verbatim>\<open>formatCell\<close> action applies a format option only when its value is truthy:
  when \<^verbatim>\<open>bold\<close> is falsy (false, or absent) the bold flag of every cell is as before, and
  likewise for the number format, the fill colour and the font colour; the only bold
  write the action ever queues is \<^verbatim>\<open>true\<close>, so a cell that is bold stays bold.
\<close>

theorem formatCell_applies_truthy_options_only:
  "(\<not> truthy (fmt_bold fmt) \<longrightarrow>
      cell_field gc_bold
        (res_document (executeActions excel_sync [FormatCell sheet addr fmt] wb)) s p =
      cell_field gc_bold wb s p) \<and>
   (\<not> truthy (fmt_numberFormat fmt) \<longrightarrow>
      cell_field gc_numberFormat
        (res_document (executeActions excel_sync [FormatCell sheet addr fmt] wb)) s p =
      cell_field gc_numberFormat wb s p) \<and>
   (\<not> truthy (fmt_bgColor fmt) \<longrightarrow>
      cell_field gc_fillColor
        (res_document (executeActions excel_sync [FormatCell sheet addr fmt] wb)) s p =
      cell_field gc_fillColor wb s p) \<and>
   (\<not> truthy (fmt_fontColor fmt) \<longrightarrow>
      cell_field gc_fontColor
        (res_document (executeActions excel_sync [FormatCell sheet addr fmt] wb)) s p =
      cell_field gc_fontColor wb s p) \<and>
   (cell_field gc_bold wb s p = Some (JBool True) \<longrightarrow>
      cell_field gc_bold
        (res_document (executeActions excel_sync [FormatCell sheet addr fmt] wb)) s p =
      Some (JBool True)) \<and>
   (WriteFontBold sheet addr v \<in> set (queued_ops (FormatCell sheet addr fmt)) \<longrightarrow>
      v = JBool True \<and> truthy (fmt_bold fmt))"
proof (intro conjI impI)
  assume "WriteFontBold sheet addr v \<in> set (queued_ops (FormatCell sheet addr fmt))"
  then have "WriteFontBold sheet addr v = WriteFontBold sheet addr (JBool True) \<and>
      truthy (fmt_bold fmt)"
    using formatCell_ops [of "WriteFontBold sheet addr v" sheet addr fmt] by simp
  then show "v = JBool True" and "truthy (fmt_bold fmt)"
    by simp_all
next
  assume "\<not> truthy (fmt_bold fmt)"
  then show "cell_field gc_bold
      (res_document (executeActions excel_sync [FormatCell sheet addr fmt] wb)) s p =
      cell_field gc_bold wb s p"
    unfolding executeActions_formatCell by (rule formatCell_keeps_bold)
next
  assume "\<not> truthy (fmt_numberFormat fmt)"
  then show "cell_field gc_numberFormat
      (res_document (executeActions excel_sync [FormatCell sheet addr fmt] wb)) s p =
      cell_field gc_numberFormat wb s p"
    unfolding executeActions_formatCell by (rule formatCell_keeps_numberFormat)
next
  assume "\<not> truthy (fmt_bgColor fmt)"
  then show "cell_field gc_fillColor
      (res_document (executeActions excel_sync [FormatCell sheet addr fmt] wb)) s p =
      cell_field gc_fillColor wb s p"
    unfolding executeActions_formatCell by (rule formatCell_keeps_fillColor)
next
  assume "\<not> truthy (fmt_fontColor fmt)"
  then show "cell_field gc_fontColor
      (res_document (executeActions excel_sync [FormatCell sheet addr fmt] wb)) s p =
      cell_field gc_fontColor wb s p"
    unfolding executeActions_formatCell by (rule formatCell_keeps_fontColor)
next
  assume "cell_field gc_bold wb s p = Some (JBool True)"
  then show "cell_field gc_bold
      (res_document (executeActions excel_sync [FormatCell sheet addr fmt] wb)) s p =
      Some (JBool True)"
    unfolding executeActions_formatCell by (rule formatCell_never_clears_bold)
qed

theorem formatCell_applies_truthy_options_only_witness:
  "cell_field gc_bold
     (res_document (executeActions excel_sync
        [FormatCell ''DCF'' ''A1''
           \<lparr>fmt_bold = JBool False, fmt_numberFormat = JStr ''0%'', fmt_bgColor = JUndefined,
            fmt_fontColor = JStr []\<rparr>]
        [''DCF'' \<mapsto> example_sheet])) ''DCF'' (0, 0) = Some (JBool True) \<and>
   cell_field gc_fillColor
     (res_document (executeActions excel_sync
        [FormatCell ''DCF'' ''A1''
           \<lparr>fmt_bold = JBool False, fmt_numberFormat = JStr ''0%'', fmt_bgColor = JUndefined,
            fmt_fontColor = JStr []\<rparr>]
        [''DCF'' \<mapsto> example_sheet])) ''DCF'' (0, 0) = Some (JStr ''#FFFF00'') \<and>
   cell_field gc_fontColor
     (res_document (executeActions excel_sync
        [FormatCell ''DCF'' ''A1''
           \<lparr>fmt_bold = JBool False, fmt_numberFormat = JStr ''0%'', fmt_bgColor = JUndefined,
            fmt_fontColor = JStr []\<rparr>]
        [''DCF'' \<mapsto> example_sheet])) ''DCF'' (0, 0) = Some (JStr ''#FF0000'')"
proof -
  let ?fmt = "\<lparr>fmt_bold = JBool False, fmt_numberFormat = JStr ''0%'',
    fmt_bgColor = JUndefined, fmt_fontColor = JStr []\<rparr>"
  let ?wb = "[''DCF'' \<mapsto> example_sheet]"
  have before:
    "cell_field gc_bold ?wb ''DCF'' (0, 0) = Some (JBool True)"
    "cell_field gc_fillColor ?wb ''DCF'' (0, 0) = Some (JStr ''#FFFF00'')"
    "cell_field gc_fontColor ?wb ''DCF'' (0, 0) = Some (JStr ''#FF0000'')"
    by (simp_all add: cell_field_def example_sheet_def)
  note inst = formatCell_applies_truthy_options_only
    [of ?fmt "''DCF''" "''A1''" ?wb "''DCF''" "(0, 0)" "JBool False"]
  show ?thesis
    using inst before by simp
qed

section \<open>Range writes and the dimensions of the payload\<close>





















section \<open>The error checker (ErrorChecker.tsx)\<close>





text \<open>
  The state of the component and the status line it shows. \<open>Found n\<close> stands for the text
  \<^verbatim>\<open>Found n issue(s)\<close>.
\<close>

datatype status_message = NoStatus | Analyzing | NoErrorsFound | Found nat | FailedToCheck









end
